theory Spec2Isabelle
  imports Complex_Main "HOL-Library.Stream"
begin

section \<open>Values and errors\<close>

text \<open>
  The script \<^verbatim>\<open>pretrain_IJEPA.py\<close> is glue around a numerical framework. A parameter
  tensor is modelled as the list of its elements (one dimension), and every Python
  exception as a value of \<open>error\<close>, carried in the left summand of the result.

  The arithmetic of the elements is a type parameter \<open>'a\<close> of the model. At
  \<^typ>\<open>real\<close> it is exact arithmetic. At \<open>fval\<close>, below, it has the special values of
  IEEE arithmetic. Where the rounding of a scalar operation matters (the running
  coefficient \<open>m\<close>) the rounding function is an explicit parameter \<open>rnd\<close>.
\<close>

datatype error = ZeroDivisionError | RuntimeError | OSError

type_synonym 'a tensor = "'a list"

subsection \<open>Floating-point values with infinities and NaN\<close>

text \<open>
  A floating-point value is a finite number, one of the two infinities, or NaN.
  Multiplication, addition and subtraction follow IEEE 754 on the special values:
  NaN propagates, \<open>0 * \<infinity>\<close> and \<open>\<infinity> - \<infinity>\<close> are NaN, and the sign of an infinite product is the
  product of the signs. On finite operands the result is the exact one (the two zeros
  are one value, and rounding and overflow of finite results are left out).
\<close>

datatype fval = Finite real | PInf | NInf | NaN

fun is_finite :: "fval \<Rightarrow> bool" where
  "is_finite (Finite x) = True"
| "is_finite v = False"

instantiation fval :: "{zero, one, uminus, plus, minus, times}"
begin

definition zero_fval :: fval where
  "zero_fval = Finite 0"

definition one_fval :: fval where
  "one_fval = Finite 1"

fun uminus_fval :: "fval \<Rightarrow> fval" where
  "uminus_fval (Finite x) = Finite (- x)"
| "uminus_fval PInf = NInf"
| "uminus_fval NInf = PInf"
| "uminus_fval NaN = NaN"

fun plus_fval :: "fval \<Rightarrow> fval \<Rightarrow> fval" where
  "plus_fval (Finite x) (Finite y) = Finite (x + y)"
| "plus_fval NaN v = NaN"
| "plus_fval v NaN = NaN"
| "plus_fval PInf NInf = NaN"
| "plus_fval NInf PInf = NaN"
| "plus_fval PInf v = PInf"
| "plus_fval NInf v = NInf"
| "plus_fval v PInf = PInf"
| "plus_fval v NInf = NInf"

definition minus_fval :: "fval \<Rightarrow> fval \<Rightarrow> fval" where
  "minus_fval v w = v + (- w)"

fun times_fval :: "fval \<Rightarrow> fval \<Rightarrow> fval" where
  "times_fval (Finite x) (Finite y) = Finite (x * y)"
| "times_fval NaN v = NaN"
| "times_fval v NaN = NaN"
| "times_fval PInf (Finite y) = (if y = 0 then NaN else if 0 < y then PInf else NInf)"
| "times_fval NInf (Finite y) = (if y = 0 then NaN else if 0 < y then NInf else PInf)"
| "times_fval (Finite x) PInf = (if x = 0 then NaN else if 0 < x then PInf else NInf)"
| "times_fval (Finite x) NInf = (if x = 0 then NaN else if 0 < x then NInf else PInf)"
| "times_fval PInf PInf = PInf"
| "times_fval NInf NInf = PInf"
| "times_fval PInf NInf = NInf"
| "times_fval NInf PInf = NInf"

instance ..

end

subsection \<open>The two in-place tensor operations used by the momentum update\<close>

text \<open>\<^verbatim>\<open>t.mul_(other=m)\<close>: every element of \<open>t\<close> is multiplied by the scalar.\<close>

definition mul_inplace :: "'a::times tensor \<Rightarrow> 'a \<Rightarrow> 'a tensor" where
  "mul_inplace t other = map (\<lambda>x. x * other) t"

text \<open>
  \<^verbatim>\<open>t.add_(other=s, alpha=a)\<close>: \<open>t + a * s\<close> element by element. The result keeps the
  shape of \<open>t\<close>; \<open>s\<close> is broadcast when it has a single element, and any other
  difference of size is the framework's RuntimeError.
\<close>

definition add_inplace :: "'a::{plus,times} tensor \<Rightarrow> 'a tensor \<Rightarrow> 'a \<Rightarrow> error + 'a tensor" where
  "add_inplace t other alpha =
     (if length other = length t then Inr (map2 (\<lambda>x y. x + alpha * y) t other)
      else if length other = 1 then Inr (map (\<lambda>x. x + alpha * hd other) t)
      else Inl RuntimeError)"

section \<open>The network object and the training module\<close>

text \<open>
  Of the wrapped network (\<^verbatim>\<open>IJEPA_base\<close>, imported from \<^verbatim>\<open>model\<close>) the script
  touches the parameters and the train/eval flag of the two encoders and the attribute
  \<^verbatim>\<open>mode\<close>.
\<close>

record 'a encoder =
  parameters :: "'a tensor list"
  training :: bool

record 'a ijepa_base =
  student_encoder :: "'a encoder"
  teacher_encoder :: "'a encoder"
  mode :: string

record 'a ijepa =
  model :: "'a ijepa_base"
  M :: int
  lr :: real
  weight_decay :: real
  m :: 'a
  target_aspect_ratio :: "real \<times> real"
  target_scale :: "real \<times> real"
  context_aspect_ratio :: real
  context_scale :: "real \<times> real"
  embed_dim :: int
  patch_size :: int
  num_tokens :: int
  m_start_end :: "'a \<times> 'a"
  logged :: "(string \<times> real) list"

subsection \<open>\<^verbatim>\<open>update_momentum\<close>\<close>

text \<open>
  The loop over \<^verbatim>\<open>zip(student_model.parameters(), teacher_model.parameters())\<close>: it
  stops with the shorter list, and a teacher parameter beyond it is left as it is.
\<close>

fun momentum_loop ::
  "'a::{one,minus,plus,times} \<Rightarrow> 'a tensor list \<Rightarrow> 'a tensor list \<Rightarrow> error + 'a tensor list" where
  "momentum_loop mc (student_param # ss) (teacher_param # ts) =
     (case add_inplace (mul_inplace teacher_param mc) student_param (1 - mc) of
        Inl e \<Rightarrow> Inl e
      | Inr teacher_param' \<Rightarrow>
          (case momentum_loop mc ss ts of
             Inl e \<Rightarrow> Inl e
           | Inr ts' \<Rightarrow> Inr (teacher_param' # ts')))"
| "momentum_loop mc [] ts = Inr ts"
| "momentum_loop mc ss [] = Inr []"

definition update_momentum ::
  "'a::{one,minus,plus,times} ijepa \<Rightarrow> 'a \<Rightarrow> error + 'a ijepa" where
  "update_momentum self mc =
     (let student_model = (student_encoder (model self))\<lparr>training := False\<rparr>;
          teacher_model = (teacher_encoder (model self))\<lparr>training := False\<rparr>
      in case momentum_loop mc (parameters student_model) (parameters teacher_model) of
           Inl e \<Rightarrow> Inl e
         | Inr ts \<Rightarrow>
             Inr (self\<lparr>model := (model self)
                    \<lparr>student_encoder := student_model,
                     teacher_encoder := teacher_model\<lparr>parameters := ts\<rparr>\<rparr>\<rparr>))"

subsection \<open>\<^verbatim>\<open>on_after_backward\<close>\<close>

text \<open>
  The hook reads \<^verbatim>\<open>self.trainer.estimated_stepping_batches\<close>; the trainer belongs to
  the training framework, and the one attribute read is all that is kept of it. Python's
  true division raises on a zero divisor.

  \<^verbatim>\<open>self.m\<close> and \<^verbatim>\<open>self.m_start_end\<close> are Python floats, that is doubles. The statement
  \<^verbatim>\<open>self.m += (m_end - m_start) / n\<close> rounds four times: the difference, the conversion
  of the integer \<open>n\<close>, the quotient and the sum. The rounding \<open>rnd\<close> is a parameter: the
  identity gives exact arithmetic, \<open>round_double\<close> below the arithmetic of doubles.
\<close>

record trainer =
  estimated_stepping_batches :: int

definition on_after_backward ::
  "(real \<Rightarrow> real) \<Rightarrow> trainer \<Rightarrow> real ijepa \<Rightarrow> error + real ijepa" where
  "on_after_backward rnd tr self =
     (case update_momentum self (m self) of
        Inl e \<Rightarrow> Inl e
      | Inr self' \<Rightarrow>
          if estimated_stepping_batches tr = 0 then Inl ZeroDivisionError
          else Inr (self'\<lparr>m := rnd (m self' +
                 rnd (rnd (snd (m_start_end self') - fst (m_start_end self'))
                        / rnd (real_of_int (estimated_stepping_batches tr))))\<rparr>))"

subsection \<open>Rounding to a double\<close>

text \<open>
  Round to nearest, ties to even, with a significand of 53 bits: the value is scaled by
  a power of two into \<open>[2^52, 2^53)\<close>, rounded to an integer and scaled back. Overflow
  and subnormal numbers are left out. \<open>normalise\<close> finds the scaling in at most 2200
  halvings or doublings, which covers the exponents of all doubles.
\<close>

definition round_half_even :: "real \<Rightarrow> int" where
  "round_half_even y =
     (let f = \<lfloor>y\<rfloor>; d = y - of_int f
      in if d < 1 / 2 then f else if 1 / 2 < d then f + 1 else if even f then f else f + 1)"

fun normalise :: "nat \<Rightarrow> real \<Rightarrow> int \<Rightarrow> real \<times> int" where
  "normalise 0 x e = (x, e)"
| "normalise (Suc k) x e =
     (if 2 ^ 53 \<le> x then normalise k (x / 2) (e + 1)
      else if x < 2 ^ 52 then normalise k (x * 2) (e - 1)
      else (x, e))"

definition round_double :: "real \<Rightarrow> real" where
  "round_double x =
     (if x = 0 then 0
      else case normalise 2200 \<bar>x\<bar> 0 of
             (y, e) \<Rightarrow> sgn x * of_int (round_half_even y) * 2 powi e)"

text \<open>
  A coarser rounding of the same kind, to the nearest multiple of \<open>2^-20\<close>; its error
  is at most \<open>2^-21\<close> everywhere.
\<close>

definition round_grid :: "real \<Rightarrow> real" where
  "round_grid x = of_int (round (x * 2 ^ 20)) / 2 ^ 20"

subsection \<open>Random draws\<close>

text \<open>
  \<^verbatim>\<open>np.random.uniform(low, high)\<close> is \<open>low + (high - low) * u\<close> for the next draw \<open>u\<close>
  of the generator from the unit interval. The generator's state is the stream of its
  future unit draws; each call takes the head and leaves the tail.
\<close>

definition uniform :: "real \<Rightarrow> real \<Rightarrow> real stream \<Rightarrow> real \<times> real stream" where
  "uniform low high g = (low + (high - low) * shd g, stl g)"

subsection \<open>\<^verbatim>\<open>training_step\<close>, \<^verbatim>\<open>validation_step\<close>, \<^verbatim>\<open>predict_step\<close>\<close>

text \<open>
  The forward pass of the wrapped network and the loss (\<^verbatim>\<open>nn.MSELoss\<close> on the pair the
  forward pass returns) are the framework's; they are parameters \<open>forward\<close> and
  \<open>criterion\<close>. A step returns its value, the module after the step (\<^verbatim>\<open>self.log\<close>
  appends to \<open>logged\<close>) and the generator after the step.
\<close>

definition training_step ::
  "('a ijepa_base \<Rightarrow> 'x \<Rightarrow> real \<Rightarrow> real \<Rightarrow> real \<Rightarrow> real \<Rightarrow> 'y) \<Rightarrow> ('y \<Rightarrow> real) \<Rightarrow>
   'a ijepa \<Rightarrow> 'x \<Rightarrow> real stream \<Rightarrow> real \<times> 'a ijepa \<times> real stream" where
  "training_step forward criterion self batch g =
     (case uniform (fst (target_aspect_ratio self)) (snd (target_aspect_ratio self)) g of
        (tar, g1) \<Rightarrow>
     (case uniform (fst (target_scale self)) (snd (target_scale self)) g1 of
        (tsc, g2) \<Rightarrow>
     (let car = context_aspect_ratio self in
     (case uniform (fst (context_scale self)) (snd (context_scale self)) g2 of
        (csc, g3) \<Rightarrow>
     (let y = forward (model self) batch tar tsc car csc;
          loss = criterion y
      in (loss, self\<lparr>logged := logged self @ [(''train_loss'', loss)]\<rparr>, g3))))))"

definition validation_step ::
  "('a ijepa_base \<Rightarrow> 'x \<Rightarrow> real \<Rightarrow> real \<Rightarrow> real \<Rightarrow> real \<Rightarrow> 'y) \<Rightarrow> ('y \<Rightarrow> real) \<Rightarrow>
   'a ijepa \<Rightarrow> 'x \<Rightarrow> real stream \<Rightarrow> real \<times> 'a ijepa \<times> real stream" where
  "validation_step forward criterion self batch g =
     (case uniform (fst (target_aspect_ratio self)) (snd (target_aspect_ratio self)) g of
        (tar, g1) \<Rightarrow>
     (case uniform (fst (target_scale self)) (snd (target_scale self)) g1 of
        (tsc, g2) \<Rightarrow>
     (let car = context_aspect_ratio self in
     (case uniform (fst (context_scale self)) (snd (context_scale self)) g2 of
        (csc, g3) \<Rightarrow>
     (let y = forward (model self) batch tar tsc car csc;
          loss = criterion y
      in (loss, self\<lparr>logged := logged self @ [(''val_loss'', loss)]\<rparr>, g3))))))"

definition predict_step ::
  "('a ijepa_base \<Rightarrow> 'x \<Rightarrow> real \<Rightarrow> real \<Rightarrow> real \<Rightarrow> real \<Rightarrow> 'y) \<Rightarrow>
   'a ijepa \<Rightarrow> 'x \<Rightarrow> real stream \<Rightarrow> 'y \<times> 'a ijepa \<times> real stream" where
  "predict_step forward self batch g =
     (case uniform (fst (target_aspect_ratio self)) (snd (target_aspect_ratio self)) g of
        (tar, g1) \<Rightarrow>
     (case uniform (fst (target_scale self)) (snd (target_scale self)) g1 of
        (tsc, g2) \<Rightarrow>
     (let car = context_aspect_ratio self;
          csc = 1;
          self' = self\<lparr>model := (model self)\<lparr>mode := ''test''\<rparr>\<rparr>
      in (forward (model self') batch tar tsc car csc, self', g2))))"

subsection \<open>\<^verbatim>\<open>IJEPA.__init__\<close>\<close>

text \<open>
  The keyword arguments of the constructor with their defaults. The constructor of the
  wrapped network is a parameter; it runs first and may raise. \<^verbatim>\<open>//\<close> on Python
  integers is floor division, which is \<open>div\<close> on \<^typ>\<open>int\<close>, and raises on a zero
  divisor.
\<close>

record hparams =
  hp_img_size :: int
  hp_patch_size :: int
  hp_in_chans :: int
  hp_embed_dim :: int
  hp_enc_heads :: int
  hp_enc_depth :: int
  hp_decoder_depth :: int
  hp_lr :: real
  hp_weight_decay :: real
  hp_target_aspect_ratio :: "real \<times> real"
  hp_target_scale :: "real \<times> real"
  hp_context_aspect_ratio :: real
  hp_context_scale :: "real \<times> real"
  hp_M :: int
  hp_m :: real
  hp_m_start_end :: "real \<times> real"

definition defaults :: hparams where
  "defaults =
     \<lparr>hp_img_size = 224, hp_patch_size = 16, hp_in_chans = 3, hp_embed_dim = 64,
      hp_enc_heads = 8, hp_enc_depth = 8, hp_decoder_depth = 6, hp_lr = 1 / 1000000,
      hp_weight_decay = 5 / 100, hp_target_aspect_ratio = (75 / 100, 15 / 10),
      hp_target_scale = (15 / 100, 2 / 10), hp_context_aspect_ratio = 1,
      hp_context_scale = (85 / 100, 1), hp_M = 4, hp_m = 996 / 1000,
      hp_m_start_end = (996 / 1000, 1)\<rparr>"

definition IJEPA_init ::
  "(hparams \<Rightarrow> error + real ijepa_base) \<Rightarrow> hparams \<Rightarrow> error + real ijepa" where
  "IJEPA_init IJEPA_base hp =
     (case IJEPA_base hp of
        Inl e \<Rightarrow> Inl e
      | Inr net \<Rightarrow>
          if hp_patch_size hp = 0 then Inl ZeroDivisionError
          else Inr \<lparr>model = net, M = hp_M hp, lr = hp_lr hp, weight_decay = hp_weight_decay hp,
                 m = hp_m hp, target_aspect_ratio = hp_target_aspect_ratio hp,
                 target_scale = hp_target_scale hp,
                 context_aspect_ratio = hp_context_aspect_ratio hp,
                 context_scale = hp_context_scale hp, embed_dim = hp_embed_dim hp,
                 patch_size = hp_patch_size hp,
                 num_tokens = (hp_img_size hp div hp_patch_size hp) ^ 2,
                 m_start_end = hp_m_start_end hp, logged = []\<rparr>)"

section \<open>The trainer's loop, as far as the module's state sees it\<close>

text \<open>
  The loop that calls the hooks is the training framework's (\<^verbatim>\<open>trainer.fit\<close>), not the
  script's. What it does to the state kept here is given as data: a schedule of hooks.
  \<open>Backward\<close> is \<^verbatim>\<open>loss.backward()\<close> and \<open>Scheduler_step\<close> the learning-rate scheduler's
  step; neither writes a parameter. \<open>Optimizer_step new\<close> is the optimizer's step, which
  leaves \<open>new\<close> as the student encoder's parameters. \<open>On_after_backward\<close> is the one
  hook of the schedule that the script overrides.
\<close>

datatype hook =
  Backward | On_after_backward | Optimizer_step "real tensor list" | Scheduler_step

fun call_hook :: "(real \<Rightarrow> real) \<Rightarrow> trainer \<Rightarrow> hook \<Rightarrow> real ijepa \<Rightarrow> error + real ijepa" where
  "call_hook rnd tr Backward self = Inr self"
| "call_hook rnd tr On_after_backward self = on_after_backward rnd tr self"
| "call_hook rnd tr (Optimizer_step new) self =
     Inr (self\<lparr>model := (model self)
            \<lparr>student_encoder := (student_encoder (model self))\<lparr>parameters := new\<rparr>\<rparr>\<rparr>)"
| "call_hook rnd tr Scheduler_step self = Inr self"

fun run_hooks ::
  "(real \<Rightarrow> real) \<Rightarrow> trainer \<Rightarrow> hook list \<Rightarrow> real ijepa \<Rightarrow> error + real ijepa" where
  "run_hooks rnd tr [] self = Inr self"
| "run_hooks rnd tr (h # hs) self =
     (case call_hook rnd tr h self of
        Inl e \<Rightarrow> Inl e
      | Inr self' \<Rightarrow> run_hooks rnd tr hs self')"

text \<open>
  One training step under the framework's automatic optimisation. The framework calls
  \<^verbatim>\<open>on_after_backward\<close> right after \<^verbatim>\<open>loss.backward()\<close> and before the optimizer is
  stepped; the scheduler is stepped after the optimizer (\<^verbatim>\<open>"interval": "step"\<close>).
\<close>

definition fit_step :: "real tensor list \<Rightarrow> hook list" where
  "fit_step new = [Backward, On_after_backward, Optimizer_step new, Scheduler_step]"

text \<open>
  The order of one training step in the words of the specification: backpropagate, then
  optimizer step, then scheduler step, then momentum update.
\<close>

definition spec_fit_step :: "real tensor list \<Rightarrow> hook list" where
  "spec_fit_step new = [Backward, Optimizer_step new, Scheduler_step, On_after_backward]"

text \<open>
  The optimizer writes new values into the parameter tensors it is given; it does not
  change their sizes. \<open>keeps_shapes shp h\<close> says so of one hook of a schedule.
\<close>

definition keeps_shapes :: "nat list \<Rightarrow> hook \<Rightarrow> bool" where
  "keeps_shapes shp h = (case h of Optimizer_step new \<Rightarrow> map length new = shp | _ \<Rightarrow> True)"

section \<open>The image corpus\<close>

subsection \<open>Directory trees and \<^verbatim>\<open>os.walk\<close>\<close>

text \<open>
  A directory holds the names of its files and its named subdirectories, in the order the
  operating system lists them. A file system maps a path to the directory found there,
  if any.
\<close>

datatype dir = Dir (files: "string list") (subdirs: "(string \<times> dir) list")

type_synonym filesystem = "string \<Rightarrow> dir option"

text \<open>\<^verbatim>\<open>os.path.join\<close> of two components (POSIX flavour).\<close>

definition path_join :: "string \<Rightarrow> string \<Rightarrow> string" where
  "path_join a b =
     (if b \<noteq> [] \<and> hd b = CHR ''/'' then b
      else if a = [] \<or> last a = CHR ''/'' then a @ b
      else a @ ''/'' @ b)"

text \<open>
  The top-down walk: the triple of a directory (path, subdirectory names, file names)
  comes before the triples of its subdirectories.
\<close>

fun walk :: "string \<Rightarrow> dir \<Rightarrow> (string \<times> string list \<times> string list) list" where
  "walk topdir (Dir fs subs) =
     (topdir, map fst subs, fs) # concat (map (\<lambda>(name, d). walk (path_join topdir name) d) subs)"

text \<open>With the default \<^verbatim>\<open>onerror=None\<close>, a top that cannot be listed yields nothing.\<close>

definition os_walk :: "filesystem \<Rightarrow> string \<Rightarrow> (string \<times> string list \<times> string list) list" where
  "os_walk fsys topdir = (case fsys topdir of None \<Rightarrow> [] | Some d \<Rightarrow> walk topdir d)"

subsection \<open>\<^verbatim>\<open>str.lower\<close> and \<^verbatim>\<open>str.endswith\<close>\<close>

definition lower_char :: "char \<Rightarrow> char" where
  "lower_char c =
     (if (65::nat) \<le> of_char c \<and> of_char c \<le> (90::nat) then char_of (of_char c + (32::nat))
      else c)"

definition lower :: "string \<Rightarrow> string" where
  "lower s = map lower_char s"

definition endswith :: "string \<Rightarrow> string \<Rightarrow> bool" where
  "endswith s suf = (length suf \<le> length s \<and> drop (length s - length suf) s = suf)"

subsection \<open>\<^verbatim>\<open>IJEPADataset\<close>\<close>

text \<open>The inner loop of \<^verbatim>\<open>load_images\<close>, over the files of one directory.\<close>

fun scan_files :: "string \<Rightarrow> string list \<Rightarrow> string list \<Rightarrow> string list" where
  "scan_files rootdir [] image_files = image_files"
| "scan_files rootdir (file # rest) image_files =
     scan_files rootdir rest
       (if endswith (lower file) ''.jpeg'' then image_files @ [path_join rootdir file]
        else image_files)"

text \<open>The outer loop, over the triples of the walk.\<close>

fun scan_walk :: "(string \<times> string list \<times> string list) list \<Rightarrow> string list \<Rightarrow> string list" where
  "scan_walk [] image_files = image_files"
| "scan_walk ((rootdir, _, fs) # rest) image_files = scan_walk rest (scan_files rootdir fs image_files)"

text \<open>
  The second loop opens, converts and resizes each file found; \<open>open_image\<close> stands for
  \<^verbatim>\<open>transform(Image.open(img_file).convert('RGB'))\<close> and may raise.
\<close>

fun open_all :: "(string \<Rightarrow> error + 'img) \<Rightarrow> string list \<Rightarrow> 'img list \<Rightarrow> error + 'img list" where
  "open_all open_image [] images = Inr images"
| "open_all open_image (img_file # rest) images =
     (case open_image img_file of
        Inl e \<Rightarrow> Inl e
      | Inr img \<Rightarrow> open_all open_image rest (images @ [img]))"

text \<open>The list \<^verbatim>\<open>image_files\<close> as the first loop of \<^verbatim>\<open>load_images\<close> leaves it.\<close>

definition find_image_files :: "filesystem \<Rightarrow> string \<Rightarrow> string list" where
  "find_image_files fsys path = scan_walk (os_walk fsys path) []"

definition load_images ::
  "filesystem \<Rightarrow> (nat \<times> nat \<Rightarrow> string \<Rightarrow> error + 'img) \<Rightarrow> string \<Rightarrow> nat \<times> nat \<Rightarrow> error + 'img list" where
  "load_images fsys open_image path isz = open_all (open_image isz) (find_image_files fsys path) []"

record 'img dataset =
  dataset_path :: string
  img_size :: "nat \<times> nat"
  data :: "'img list"

definition IJEPADataset ::
  "filesystem \<Rightarrow> (nat \<times> nat \<Rightarrow> string \<Rightarrow> error + 'img) \<Rightarrow> string \<Rightarrow> nat \<times> nat \<Rightarrow>
   error + 'img dataset" where
  "IJEPADataset fsys open_image path isz =
     (case load_images fsys open_image path isz of
        Inl e \<Rightarrow> Inl e
      | Inr images \<Rightarrow> Inr \<lparr>dataset_path = path, img_size = isz, data = images\<rparr>)"

definition len :: "'img dataset \<Rightarrow> nat" where
  "len ds = length (data ds)"

subsection \<open>\<^verbatim>\<open>D2VDataModule.setup\<close>\<close>

record datamodule =
  train_dataset_path :: string
  val_dataset_path :: string
  batch_size :: nat
  num_workers :: nat
  shuffle :: bool

text \<open>Both datasets are built with the default image size \<^verbatim>\<open>(224, 224)\<close>.\<close>

definition D2VDataModule_setup ::
  "filesystem \<Rightarrow> (nat \<times> nat \<Rightarrow> string \<Rightarrow> error + 'img) \<Rightarrow> datamodule \<Rightarrow>
   error + ('img dataset \<times> 'img dataset)" where
  "D2VDataModule_setup fsys open_image dm =
     (case IJEPADataset fsys open_image (train_dataset_path dm) (224, 224) of
        Inl e \<Rightarrow> Inl e
      | Inr train_dataset \<Rightarrow>
          (case IJEPADataset fsys open_image (val_dataset_path dm) (224, 224) of
             Inl e \<Rightarrow> Inl e
           | Inr val_dataset \<Rightarrow> Inr (train_dataset, val_dataset)))"

subsection \<open>Where a file lies in a tree\<close>

text \<open>
  \<open>file_in d comps name\<close>: following the subdirectory names \<open>comps\<close> from \<open>d\<close> leads to
  a directory that lists the file \<open>name\<close>. This is the reference against which the walk
  of \<^verbatim>\<open>load_images\<close> is compared.
\<close>

inductive file_in :: "dir \<Rightarrow> string list \<Rightarrow> string \<Rightarrow> bool" where
  here: "name \<in> set (files d) \<Longrightarrow> file_in d [] name"
| below: "(sub, d') \<in> set (subdirs d) \<Longrightarrow> file_in d' comps name \<Longrightarrow> file_in d (sub # comps) name"

code_pred file_in .

section \<open>Example instances\<close>

definition example_net :: "real ijepa_base" where
  "example_net =
     \<lparr>student_encoder = \<lparr>parameters = [[1, 2], [3]], training = True\<rparr>,
      teacher_encoder = \<lparr>parameters = [[0, 4], [1]], training = True\<rparr>,
      mode = ''train''\<rparr>"

definition example_module :: "real ijepa" where
  "example_module =
     \<lparr>model = example_net, M = 4, lr = 1 / 1000000, weight_decay = 5 / 100, m = 996 / 1000,
      target_aspect_ratio = (75 / 100, 15 / 10), target_scale = (15 / 100, 2 / 10),
      context_aspect_ratio = 1, context_scale = (85 / 100, 1), embed_dim = 64,
      patch_size = 16, num_tokens = 196, m_start_end = (996 / 1000, 1), logged = []\<rparr>"

text \<open>
  The same module over \<open>fval\<close>, with the given student and teacher parameters.
\<close>

definition fval_module :: "fval tensor list \<Rightarrow> fval tensor list \<Rightarrow> fval ijepa" where
  "fval_module student teacher =
     \<lparr>model =
        \<lparr>student_encoder = \<lparr>parameters = student, training = True\<rparr>,
         teacher_encoder = \<lparr>parameters = teacher, training = True\<rparr>,
         mode = ''train''\<rparr>,
      M = 4, lr = 1 / 1000000, weight_decay = 5 / 100, m = Finite (996 / 1000),
      target_aspect_ratio = (75 / 100, 15 / 10), target_scale = (15 / 100, 2 / 10),
      context_aspect_ratio = 1, context_scale = (85 / 100, 1), embed_dim = 64,
      patch_size = 16, num_tokens = 196, m_start_end = (Finite (996 / 1000), Finite 1),
      logged = []\<rparr>"

definition example_tree :: dir where
  "example_tree =
     Dir [''a.JPEG'', ''notes.txt'']
       [(''n01'', Dir [''b.jpeg'', ''c.jpg''] []), (''n02'', Dir [] [(''deep'', Dir [''d.Jpeg''] [])])]"

definition example_fs :: filesystem where
  "example_fs path =
     (if path = ''/data'' then Some example_tree
      else if path = ''/empty'' then Some (Dir [''notes.txt''] [(''sub'', Dir [''c.jpg''] [])])
      else None)"

section \<open>The momentum update\<close>

lemma ema_pointwise:
  "length (s::real tensor) = length (t::real tensor) \<Longrightarrow>
   map2 (\<lambda>x y. x + (1 - mc) * y) (map (\<lambda>x. x * mc) t) s = map2 (\<lambda>x y. mc * y + (1 - mc) * x) s t"
  by (induction s t rule: list_induct2) (simp_all add: algebra_simps)

lemma add_mul_ema:
  "length s = length t \<Longrightarrow>
   add_inplace (mul_inplace t mc) s (1 - mc)
     = Inr (map2 (\<lambda>x y. mc * y + (1 - mc) * x) s (t::real tensor))"
  by (simp add: add_inplace_def mul_inplace_def ema_pointwise)

lemma momentum_loop_ema:
  "list_all (\<lambda>(s, t). length s = length t) (zip ss ts) \<Longrightarrow>
   momentum_loop mc ss ts =
     Inr (map2 (\<lambda>s t. map2 (\<lambda>x y. mc * y + (1 - mc) * x) s t) ss ts
          @ drop (length ss) (ts::real tensor list))"
  by (induction mc ss ts rule: momentum_loop.induct) (simp_all add: add_mul_ema)

lemma same_shapes_zip:
  "map length ss = map length ts \<Longrightarrow> list_all (\<lambda>(s, t). length s = length t) (zip ss ts)"
  by (induction ss arbitrary: ts) auto

text \<open>
  C1. One call \<open>update_momentum self mc\<close> sets every teacher parameter that \<^verbatim>\<open>zip\<close>
  pairs with a student parameter to \<open>mc * teacher + (1 - mc) * student\<close>, element by
  element, for every coefficient \<open>mc\<close>; the student parameters are left as they are.
  The paired tensors are taken to have equal sizes, as the parameters of two encoders of
  one architecture have; a teacher parameter without a partner keeps its value.
\<close>

theorem update_momentum_ema:
  fixes self :: "real ijepa"
  assumes "list_all (\<lambda>(s, t). length s = length t)
             (zip (parameters (student_encoder (model self)))
                  (parameters (teacher_encoder (model self))))"
  shows "\<exists>self'. update_momentum self mc = Inr self' \<and>
           parameters (student_encoder (model self')) = parameters (student_encoder (model self)) \<and>
           parameters (teacher_encoder (model self')) =
             map2 (\<lambda>student_param teacher_param.
                     map2 (\<lambda>x y. mc * y + (1 - mc) * x) student_param teacher_param)
               (parameters (student_encoder (model self)))
               (parameters (teacher_encoder (model self)))
             @ drop (length (parameters (student_encoder (model self))))
                 (parameters (teacher_encoder (model self)))"
  using assms by (simp add: update_momentum_def momentum_loop_ema)

theorem update_momentum_ema_witness:
  "list_all (\<lambda>(s, t). length s = length t)
     (zip (parameters (student_encoder (model example_module)))
          (parameters (teacher_encoder (model example_module)))) \<and>
   map_sum id (\<lambda>s. parameters (teacher_encoder (model s))) (update_momentum example_module (1 / 4))
     = Inr [[3 / 4, 5 / 2], [5 / 2]]"
  using update_momentum_ema [of example_module "1 / 4"]
  by (auto simp: example_module_def example_net_def)

text \<open>
  The two boundary coefficients, over values that may be infinite or NaN.
\<close>

lemma fval_one_minus: "(1::fval) - 1 = 0" "(1::fval) - 0 = 1"
  by (simp_all add: minus_fval_def one_fval_def zero_fval_def)

lemma fval_keep:
  "is_finite x \<Longrightarrow> is_finite y \<Longrightarrow> x * 1 + 0 * y = (x::fval)"
  by (cases x; cases y) (simp_all add: one_fval_def zero_fval_def)

lemma fval_replace:
  "is_finite x \<Longrightarrow> is_finite y \<Longrightarrow> x * 0 + 1 * y = (y::fval)"
  by (cases x; cases y) (simp_all add: one_fval_def zero_fval_def)

lemma tensor_keep:
  "length s = length t \<Longrightarrow> list_all is_finite s \<Longrightarrow> list_all is_finite t \<Longrightarrow>
   add_inplace (mul_inplace t 1) s 0 = Inr (t::fval tensor)"
proof (induction s t rule: list_induct2)
  case Nil
  then show ?case by (simp add: add_inplace_def mul_inplace_def)
next
  case (Cons x xs y ys)
  then show ?case by (simp add: add_inplace_def mul_inplace_def fval_keep)
qed

lemma tensor_replace:
  "length s = length t \<Longrightarrow> list_all is_finite s \<Longrightarrow> list_all is_finite t \<Longrightarrow>
   add_inplace (mul_inplace t 0) s 1 = Inr (s::fval tensor)"
proof (induction s t rule: list_induct2)
  case Nil
  then show ?case by (simp add: add_inplace_def mul_inplace_def)
next
  case (Cons x xs y ys)
  then show ?case by (simp add: add_inplace_def mul_inplace_def fval_replace)
qed

lemma momentum_loop_one:
  "map length ss = map length ts \<Longrightarrow> list_all (list_all is_finite) ss \<Longrightarrow>
   list_all (list_all is_finite) ts \<Longrightarrow> momentum_loop 1 ss ts = Inr (ts::fval tensor list)"
proof (induction ss arbitrary: ts)
  case Nil
  then show ?case by simp
next
  case (Cons s ss)
  then show ?case by (cases ts) (simp_all add: fval_one_minus tensor_keep)
qed

lemma momentum_loop_zero:
  "map length ss = map length ts \<Longrightarrow> list_all (list_all is_finite) ss \<Longrightarrow>
   list_all (list_all is_finite) ts \<Longrightarrow> momentum_loop 0 ss ts = Inr (ss::fval tensor list)"
proof (induction ss arbitrary: ts)
  case Nil
  then show ?case by simp
next
  case (Cons s ss)
  then show ?case by (cases ts) (simp_all add: fval_one_minus tensor_replace)
qed

text \<open>
  C8 (as amended). On two parameter lists of the same shapes whose elements are all
  finite, the update with coefficient 1 leaves every teacher parameter as it was, and
  the update with coefficient 0 makes the teacher parameters equal to the student
  parameters. Every finite operation involved multiplies by 0 or 1 or adds 0, so it is
  exact in floating-point arithmetic as well.
\<close>

theorem update_momentum_one_zero:
  fixes self :: "fval ijepa"
  assumes "map length (parameters (student_encoder (model self))) =
           map length (parameters (teacher_encoder (model self)))"
    and "list_all (list_all is_finite) (parameters (student_encoder (model self)))"
    and "list_all (list_all is_finite) (parameters (teacher_encoder (model self)))"
  shows "\<exists>self1 self0.
           update_momentum self 1 = Inr self1 \<and>
           parameters (teacher_encoder (model self1)) = parameters (teacher_encoder (model self)) \<and>
           update_momentum self 0 = Inr self0 \<and>
           parameters (teacher_encoder (model self0)) = parameters (student_encoder (model self))"
  using assms
  by (simp add: update_momentum_def momentum_loop_one momentum_loop_zero)

theorem update_momentum_one_zero_witness:
  "map_sum id (\<lambda>s. parameters (teacher_encoder (model s)))
     (update_momentum
        (fval_module [[Finite 1, Finite 2], [Finite 3]] [[Finite 0, Finite 4], [Finite 1]]) 1)
     = Inr [[Finite 0, Finite 4], [Finite 1]] \<and>
   map_sum id (\<lambda>s. parameters (teacher_encoder (model s)))
     (update_momentum
        (fval_module [[Finite 1, Finite 2], [Finite 3]] [[Finite 0, Finite 4], [Finite 1]]) 0)
     = Inr [[Finite 1, Finite 2], [Finite 3]]"
  using update_momentum_one_zero
    [of "fval_module [[Finite 1, Finite 2], [Finite 3]] [[Finite 0, Finite 4], [Finite 1]]"]
  by (auto simp: fval_module_def)

text \<open>
  Without finiteness both halves fail. With coefficient 1 and an infinite student
  element, the teacher element 4 becomes \<open>4 * 1 + 0 * \<infinity>\<close>, which is NaN, not 4. With
  coefficient 0 and an infinite teacher element, the teacher element becomes
  \<open>\<infinity> * 0 + 1 * 4\<close>, which is NaN, not the student's 4.
\<close>

theorem update_momentum_one_zero_counterexample:
  "map_sum id (\<lambda>s. parameters (teacher_encoder (model s)))
     (update_momentum (fval_module [[PInf, Finite 2]] [[Finite 4, Finite 5]]) 1)
     = Inr [[NaN, Finite 5]] \<and>
   map_sum id (\<lambda>s. parameters (teacher_encoder (model s)))
     (update_momentum (fval_module [[Finite 4, Finite 2]] [[PInf, Finite 5]]) 0)
     = Inr [[NaN, Finite 2]] \<and>
   [[NaN, Finite 5]] \<noteq> [[Finite 4, Finite 5]] \<and>
   [[NaN, Finite 2]] \<noteq> [[Finite 4, Finite 2]]"
  by (simp add: update_momentum_def fval_module_def add_inplace_def mul_inplace_def
      minus_fval_def one_fval_def zero_fval_def)

section \<open>The three steps and the constructor\<close>

lemma uniform_range:
  assumes "0 \<le> u" "u < 1" "low \<le> high"
  shows "low \<le> low + (high - low) * u \<and> low + (high - low) * u \<le> (high::real)"
proof -
  have "0 \<le> (high - low) * u" using assms by simp
  moreover have "(high - low) * u \<le> (high - low) * 1"
    using assms by (intro mult_left_mono) simp_all
  ultimately show ?thesis by simp
qed

text \<open>
  The affine map of \<open>uniform\<close> carries the unit interval onto the whole range, so a
  uniform unit draw gives a uniform value of the range.
\<close>

lemma uniform_onto:
  assumes "low < high"
  shows "(\<lambda>u. low + (high - low) * u) ` {0..<1} = {low..<high::real}"
proof (intro set_eqI iffI)
  fix v
  assume "v \<in> (\<lambda>u. low + (high - low) * u) ` {0..<1}"
  then obtain u where u: "0 \<le> u" "u < 1" "v = low + (high - low) * u"
    by auto
  have "0 \<le> (high - low) * u"
    using assms u(1) by simp
  moreover have "(high - low) * u < (high - low) * 1"
    using assms u(2) by (intro mult_strict_left_mono) simp_all
  ultimately show "v \<in> {low..<high}"
    using u(3) by simp
next
  fix v
  assume v: "v \<in> {low..<high}"
  define u where "u = (v - low) / (high - low)"
  have "0 \<le> u" "u < 1" "v = low + (high - low) * u"
    using assms v by (simp_all add: u_def field_simps)
  then show "v \<in> (\<lambda>u. low + (high - low) * u) ` {0..<1}"
    by (intro image_eqI [of _ _ u]) simp_all
qed

lemma unit_draws_tail: "sset g \<subseteq> {0..<1::real} \<Longrightarrow> sset (stl g) \<subseteq> {0..<1}"
  by (meson stl_sset subsetD subsetI)

lemma unit_draws_head: "sset g \<subseteq> {0..<1::real} \<Longrightarrow> 0 \<le> shd g \<and> shd g < 1"
  using shd_sset [of g] by auto

text \<open>
  C4. A training step draws its masking parameters once, whatever the batch: the target
  aspect ratio, the target scale and the context scale are the next three draws of the
  generator, each mapped affinely onto its configured range (hence uniform on it and
  inside it), and the context aspect ratio is the configured constant. The forward pass
  is called once, on the whole batch, with these four scalars.
\<close>

theorem training_step_samples_once:
  assumes draws: "sset g \<subseteq> {0..<1}"
    and "fst (target_aspect_ratio self) \<le> snd (target_aspect_ratio self)"
    and "fst (target_scale self) \<le> snd (target_scale self)"
    and "fst (context_scale self) \<le> snd (context_scale self)"
  shows "let tar = fst (target_aspect_ratio self)
                 + (snd (target_aspect_ratio self) - fst (target_aspect_ratio self)) * shd g;
             tsc = fst (target_scale self)
                 + (snd (target_scale self) - fst (target_scale self)) * shd (stl g);
             csc = fst (context_scale self)
                 + (snd (context_scale self) - fst (context_scale self)) * shd (stl (stl g))
         in fst (target_aspect_ratio self) \<le> tar \<and> tar \<le> snd (target_aspect_ratio self) \<and>
           fst (target_scale self) \<le> tsc \<and> tsc \<le> snd (target_scale self) \<and>
           fst (context_scale self) \<le> csc \<and> csc \<le> snd (context_scale self) \<and>
           (\<forall>batch.
              training_step forward criterion self batch g =
                (criterion (forward (model self) batch tar tsc (context_aspect_ratio self) csc),
                 self\<lparr>logged := logged self @
                    [(''train_loss'',
                      criterion (forward (model self) batch tar tsc (context_aspect_ratio self) csc))]\<rparr>,
                 stl (stl (stl g))))"
proof -
  have d1: "0 \<le> shd g \<and> shd g < 1"
    using draws by (rule unit_draws_head)
  have d2: "0 \<le> shd (stl g) \<and> shd (stl g) < 1"
    using draws by (intro unit_draws_head unit_draws_tail)
  have d3: "0 \<le> shd (stl (stl g)) \<and> shd (stl (stl g)) < 1"
    using draws by (intro unit_draws_head unit_draws_tail)
  show ?thesis
    using uniform_range [of "shd g" "fst (target_aspect_ratio self)" "snd (target_aspect_ratio self)"]
      uniform_range [of "shd (stl g)" "fst (target_scale self)" "snd (target_scale self)"]
      uniform_range [of "shd (stl (stl g))" "fst (context_scale self)" "snd (context_scale self)"]
      d1 d2 d3 assms(2-4)
    by (simp add: training_step_def uniform_def Let_def)
qed

theorem training_step_samples_once_witness:
  "sset (sconst (1 / 2 :: real)) \<subseteq> {0..<1} \<and>
   training_step (\<lambda>net (batch::nat list) a b c d. [a, b, c, d]) sum_list example_module [0::nat, 1, 2] (sconst (1 / 2))
     = (129 / 40, example_module\<lparr>logged := [(''train_loss'', 129 / 40)]\<rparr>, sconst (1 / 2))"
  using training_step_samples_once [of "sconst (1 / 2)" example_module "\<lambda>net (batch::nat list) a b c d. [a, b, c, d]" sum_list]
  by (simp add: example_module_def Let_def)


text \<open>
  C7. A validation step draws, calls the forward pass and computes the loss exactly as a
  training step does (only the name of the logged metric differs), and it leaves the
  momentum coefficient, the wrapped network and so the teacher parameters as they were:
  no momentum update is part of it.
\<close>

theorem validation_step_frame:
  "validation_step forward criterion self batch g =
     (case training_step forward criterion self batch g of
        (loss, _, g') \<Rightarrow> (loss, self\<lparr>logged := logged self @ [(''val_loss'', loss)]\<rparr>, g')) \<and>
   m (fst (snd (validation_step forward criterion self batch g))) = m self \<and>
   model (fst (snd (validation_step forward criterion self batch g))) = model self \<and>
   parameters (teacher_encoder (model (fst (snd (validation_step forward criterion self batch g)))))
     = parameters (teacher_encoder (model self))"
  by (simp add: validation_step_def training_step_def uniform_def Let_def)

text \<open>
  C10. Whatever \<open>context_scale\<close> is configured, \<open>predict_step\<close> passes the context
  scale 1 to the forward pass and draws nothing for it; the target aspect ratio and the
  target scale are drawn from their ranges as in training; the network that the forward
  pass sees, and the module after the call, have \<open>mode = ''test''\<close>.
\<close>

theorem predict_step_full_context:
  assumes draws: "sset g \<subseteq> {0..<1}"
    and "fst (target_aspect_ratio self) \<le> snd (target_aspect_ratio self)"
    and "fst (target_scale self) \<le> snd (target_scale self)"
  shows "let tar = fst (target_aspect_ratio self)
                 + (snd (target_aspect_ratio self) - fst (target_aspect_ratio self)) * shd g;
             tsc = fst (target_scale self)
                 + (snd (target_scale self) - fst (target_scale self)) * shd (stl g)
         in fst (target_aspect_ratio self) \<le> tar \<and> tar \<le> snd (target_aspect_ratio self) \<and>
            fst (target_scale self) \<le> tsc \<and> tsc \<le> snd (target_scale self) \<and>
            (\<forall>batch cs.
               predict_step forward (self\<lparr>context_scale := cs\<rparr>) batch g =
                 (forward ((model self)\<lparr>mode := ''test''\<rparr>) batch tar tsc (context_aspect_ratio self) 1,
                  self\<lparr>model := (model self)\<lparr>mode := ''test''\<rparr>, context_scale := cs\<rparr>,
                  stl (stl g)) \<and>
               mode (model (fst (snd (predict_step forward (self\<lparr>context_scale := cs\<rparr>) batch g))))
                 = ''test'')"
proof -
  have d1: "0 \<le> shd g \<and> shd g < 1"
    using draws by (rule unit_draws_head)
  have d2: "0 \<le> shd (stl g) \<and> shd (stl g) < 1"
    using draws by (intro unit_draws_head unit_draws_tail)
  show ?thesis
    using uniform_range [of "shd g" "fst (target_aspect_ratio self)" "snd (target_aspect_ratio self)"]
      uniform_range [of "shd (stl g)" "fst (target_scale self)" "snd (target_scale self)"]
      d1 d2 assms(2-3)
    by (simp add: predict_step_def uniform_def Let_def)
qed

theorem predict_step_full_context_witness:
  "sset (sconst (1 / 2 :: real)) \<subseteq> {0..<1} \<and>
   predict_step (\<lambda>net (batch::nat list) a b c d. (mode net, [a, b, c, d])) example_module [0::nat, 1, 2] (sconst (1 / 2))
     = ((''test'', [9 / 8, 7 / 40, 1, 1]),
        example_module\<lparr>model := example_net\<lparr>mode := ''test''\<rparr>\<rparr>, sconst (1 / 2))"
  using predict_step_full_context [of "sconst (1 / 2)" example_module "\<lambda>net (batch::nat list) a b c d. (mode net, [a, b, c, d])"]
  by (simp add: example_module_def Let_def)

text \<open>
  C9 (as amended). When the network is constructed and \<open>patch_size\<close> is not zero, the
  constructor sets \<open>num_tokens\<close> to the square of the floor of
  \<open>img_size / patch_size\<close>; this is the square of the exact quotient whenever
  \<open>patch_size\<close> divides \<open>img_size\<close>.
\<close>

theorem num_tokens_floor:
  assumes "IJEPA_base hp = Inr net" and "hp_patch_size hp \<noteq> 0"
  shows "\<exists>self. IJEPA_init IJEPA_base hp = Inr self \<and>
           num_tokens self = (hp_img_size hp div hp_patch_size hp)\<^sup>2 \<and>
           real_of_int (num_tokens self)
             = (real_of_int \<lfloor>real_of_int (hp_img_size hp) / real_of_int (hp_patch_size hp)\<rfloor>)\<^sup>2 \<and>
           (hp_patch_size hp dvd hp_img_size hp \<longrightarrow>
              real_of_int (num_tokens self)
                = (real_of_int (hp_img_size hp) / real_of_int (hp_patch_size hp))\<^sup>2)"
  using assms by (auto simp: IJEPA_init_def floor_divide_of_int_eq real_of_int_div)

theorem num_tokens_floor_witness:
  "map_sum id num_tokens (IJEPA_init (\<lambda>hp. Inr example_net) defaults) = Inr 196 \<and>
   (196 :: real) = (224 / 16)\<^sup>2"
  using num_tokens_floor [of "\<lambda>hp. Inr example_net" defaults example_net]
  by (auto simp: defaults_def)

text \<open>
  With the default image size 224 and patch size 10 the constructor stores 484 tokens,
  which is not the square of 224 / 10.
\<close>

theorem num_tokens_counterexample:
  "map_sum id num_tokens (IJEPA_init (\<lambda>hp. Inr example_net) (defaults\<lparr>hp_patch_size := 10\<rparr>)) = Inr 484 \<and>
   (484 :: real) \<noteq> (224 / 10)\<^sup>2"
  by (simp add: IJEPA_init_def defaults_def power2_eq_square)

section \<open>The momentum schedule along the trainer's loop\<close>

lemma ema_shapes:
  "map length ss = map length ts \<Longrightarrow>
   map length (map2 (map2 f) ss ts @ drop (length ss) ts) = map length ts"
proof (induction ss arbitrary: ts)
  case Nil
  then show ?case by simp
next
  case (Cons s ss)
  then show ?case by (cases ts) simp_all
qed

lemma on_after_backward_ok:
  assumes "list_all (\<lambda>(s, t). length s = length t)
             (zip (parameters (student_encoder (model self)))
                  (parameters (teacher_encoder (model self))))"
    and "estimated_stepping_batches tr \<noteq> 0"
  shows "on_after_backward rnd tr self =
     Inr (self\<lparr>model := (model self)
            \<lparr>student_encoder := (student_encoder (model self))\<lparr>training := False\<rparr>,
             teacher_encoder := (teacher_encoder (model self))
               \<lparr>training := False,
                parameters :=
                  map2 (map2 (\<lambda>x y. m self * y + (1 - m self) * x))
                    (parameters (student_encoder (model self)))
                    (parameters (teacher_encoder (model self)))
                  @ drop (length (parameters (student_encoder (model self))))
                      (parameters (teacher_encoder (model self)))\<rparr>\<rparr>,
          m := rnd (m self + rnd (rnd (snd (m_start_end self) - fst (m_start_end self))
                          / rnd (real_of_int (estimated_stepping_batches tr))))\<rparr>)"
  using assms by (simp add: on_after_backward_def update_momentum_def momentum_loop_ema)

lemma call_hook_ok:
  assumes "map length (parameters (student_encoder (model self))) = shp"
    and "map length (parameters (teacher_encoder (model self))) = shp"
    and "keeps_shapes shp h"
    and "estimated_stepping_batches tr \<noteq> 0"
  shows "\<exists>self'. call_hook rnd tr h self = Inr self' \<and>
           map length (parameters (student_encoder (model self'))) = shp \<and>
           map length (parameters (teacher_encoder (model self'))) = shp \<and>
           m_start_end self' = m_start_end self \<and>
           m self' = (if h = On_after_backward
                      then rnd (m self + rnd (rnd (snd (m_start_end self) - fst (m_start_end self))
                                  / rnd (real_of_int (estimated_stepping_batches tr))))
                      else m self)"
proof (cases h)
  case On_after_backward
  define ts' where "ts' =
    map2 (map2 (\<lambda>x y. m self * y + (1 - m self) * x))
      (parameters (student_encoder (model self))) (parameters (teacher_encoder (model self)))
    @ drop (length (parameters (student_encoder (model self))))
        (parameters (teacher_encoder (model self)))"
  have sh: "map length ts' = shp"
    unfolding ts'_def using assms(1,2) ema_shapes by metis
  have "list_all (\<lambda>(s, t). length s = length t)
             (zip (parameters (student_encoder (model self)))
                  (parameters (teacher_encoder (model self))))"
    using assms(1,2) by (simp add: same_shapes_zip)
  from on_after_backward_ok [OF this assms(4), folded ts'_def] show ?thesis
    using assms(1) sh On_after_backward by simp
next
  case (Optimizer_step new)
  then show ?thesis using assms by (simp add: keeps_shapes_def)
qed (use assms in simp_all)

lemma run_hooks_ok:
  assumes "map length (parameters (student_encoder (model self))) = shp"
    and "map length (parameters (teacher_encoder (model self))) = shp"
    and "list_all (keeps_shapes shp) hs"
    and "estimated_stepping_batches tr \<noteq> 0"
  shows "\<exists>self'. run_hooks rnd tr hs self = Inr self' \<and>
           map length (parameters (student_encoder (model self'))) = shp \<and>
           map length (parameters (teacher_encoder (model self'))) = shp \<and>
           m_start_end self' = m_start_end self \<and>
           m self' =
             ((\<lambda>x. rnd (x + rnd (rnd (snd (m_start_end self) - fst (m_start_end self))
                                  / rnd (real_of_int (estimated_stepping_batches tr)))))
              ^^ count_list hs On_after_backward) (m self)"
proof -
  define q where "q = rnd (rnd (snd (m_start_end self) - fst (m_start_end self))
                            / rnd (real_of_int (estimated_stepping_batches tr)))"
  have "\<exists>self'. run_hooks rnd tr hs s0 = Inr self' \<and>
           map length (parameters (student_encoder (model self'))) = shp \<and>
           map length (parameters (teacher_encoder (model self'))) = shp \<and>
           m_start_end self' = m_start_end self \<and>
           m self' = ((\<lambda>x. rnd (x + q)) ^^ count_list hs On_after_backward) (m s0)"
    if "map length (parameters (student_encoder (model s0))) = shp"
      and "map length (parameters (teacher_encoder (model s0))) = shp"
      and "m_start_end s0 = m_start_end self"
      and "list_all (keeps_shapes shp) hs" for s0
    using that
  proof (induction hs arbitrary: s0)
    case Nil
    then show ?case by simp
  next
    case (Cons h hs)
    from Cons.prems have k: "keeps_shapes shp h" and ks: "list_all (keeps_shapes shp) hs"
      by simp_all
    from call_hook_ok [OF Cons.prems(1,2) k assms(4), of rnd]
    obtain s1 where s1: "call_hook rnd tr h s0 = Inr s1"
      "map length (parameters (student_encoder (model s1))) = shp"
      "map length (parameters (teacher_encoder (model s1))) = shp"
      "m_start_end s1 = m_start_end self"
      "m s1 = (if h = On_after_backward then rnd (m s0 + q) else m s0)"
      unfolding q_def Cons.prems(3) by auto
    from Cons.IH [OF s1(2,3,4) ks]
    obtain s2 where s2: "run_hooks rnd tr hs s1 = Inr s2"
      "map length (parameters (student_encoder (model s2))) = shp"
      "map length (parameters (teacher_encoder (model s2))) = shp"
      "m_start_end s2 = m_start_end self"
      "m s2 = ((\<lambda>x. rnd (x + q)) ^^ count_list hs On_after_backward) (m s1)"
      by blast
    have "((\<lambda>x. rnd (x + q)) ^^ n) ((\<lambda>x. rnd (x + q)) x)
            = (\<lambda>x. rnd (x + q)) (((\<lambda>x. rnd (x + q)) ^^ n) x)" for n x
      by (rule funpow_swap1 [symmetric])
    then have sw: "((\<lambda>x. rnd (x + q)) ^^ n) (rnd (x + q))
            = rnd (((\<lambda>x. rnd (x + q)) ^^ n) x + q)" for n x
      by simp
    show ?case
      using s1 s2 by (simp add: sw)
  qed
  from this [OF assms(1,2) refl assms(3)] show ?thesis
    unfolding q_def .
qed

lemma run_hooks_append:
  "run_hooks rnd tr (hs1 @ hs2) self =
     (case run_hooks rnd tr hs1 self of
        Inl e \<Rightarrow> Inl e
      | Inr self' \<Rightarrow> run_hooks rnd tr hs2 self')"
  by (induction hs1 arbitrary: self) (simp_all split: sum.splits)

lemma steps_increase:
  fixes rnd :: "real \<Rightarrow> real"
  assumes "mono rnd" and "\<forall>x. rnd (rnd x) = rnd x" and "0 \<le> q" and "rnd x = x"
  shows "x \<le> ((\<lambda>x. rnd (x + q)) ^^ k) x \<and>
         rnd (((\<lambda>x. rnd (x + q)) ^^ k) x) = ((\<lambda>x. rnd (x + q)) ^^ k) x"
proof (induction k)
  case 0
  then show ?case using assms(4) by simp
next
  case (Suc k)
  define y where "y = ((\<lambda>x. rnd (x + q)) ^^ k) x"
  have IH: "x \<le> y" "rnd y = y"
    using Suc by (simp_all add: y_def)
  have "rnd y \<le> rnd (y + q)"
    using assms(1,3) by (simp add: monoD)
  then have "x \<le> rnd (y + q)" "rnd (rnd (y + q)) = rnd (y + q)"
    using IH assms(2) by simp_all
  moreover have "((\<lambda>x. rnd (x + q)) ^^ Suc k) x = rnd (y + q)"
    by (simp add: y_def)
  ultimately show ?case by simp
qed

lemma increment_nonneg:
  fixes rnd :: "real \<Rightarrow> real"
  assumes "mono rnd" and "rnd 0 = 0" and "0 \<le> d" and "0 \<le> N"
  shows "0 \<le> rnd (rnd d / rnd N)"
proof -
  have "rnd 0 \<le> rnd d" "rnd 0 \<le> rnd N"
    using assms(1,3,4) by (simp_all add: monoD)
  then have "0 \<le> rnd d / rnd N"
    using assms(2) by simp
  then have "rnd 0 \<le> rnd (rnd d / rnd N)"
    using assms(1) by (simp add: monoD)
  then show ?thesis using assms(2) by simp
qed

lemma drift_steps:
  fixes rnd :: "real \<Rightarrow> real"
  assumes err: "\<forall>x. \<bar>x\<bar> \<le> 2 \<longrightarrow> \<bar>rnd x - x\<bar> \<le> eps"
    and eps: "0 \<le> eps" and small: "3 * (N * eps) \<le> 1" and N: "1 \<le> N"
    and q: "\<bar>q - d / N\<bar> \<le> 2 * eps"
    and d: "0 \<le> d" and m0: "0 \<le> m0" "m0 + d \<le> 1"
    and k: "real k \<le> N"
  shows "\<bar>((\<lambda>x. rnd (x + q)) ^^ k) m0 - (m0 + real k * q)\<bar> \<le> real k * eps"
  using k
proof (induction k)
  case 0
  then show ?case by simp
next
  case (Suc k)
  define y where "y = ((\<lambda>x. rnd (x + q)) ^^ k) m0"
  define j where "j = real (Suc k)"
  have j: "0 \<le> j" "j \<le> N" "j = real k + 1"
    using Suc.prems by (simp_all add: j_def)
  have IH: "\<bar>y - (m0 + real k * q)\<bar> \<le> real k * eps"
    unfolding y_def using Suc by simp
  have je: "j * eps \<le> N * eps"
    using j(2) eps by (rule mult_right_mono)
  have "j * (d / N) = d * (j / N)" by simp
  also have "\<dots> \<le> d * 1"
    using d j N by (intro mult_left_mono) simp_all
  finally have jd: "j * (d / N) \<le> d" by simp
  have jd0: "0 \<le> j * (d / N)"
    using j(1) d N by simp
  have "j * q \<le> j * (d / N + 2 * eps)"
    using q j(1) by (intro mult_left_mono) linarith+
  then have up: "j * q \<le> d + 2 * (N * eps)"
    using jd je by (simp add: algebra_simps)
  have "j * (d / N - 2 * eps) \<le> j * q"
    using q j(1) by (intro mult_left_mono) linarith+
  then have lo: "- 2 * (N * eps) \<le> j * q"
    using jd0 je by (simp add: algebra_simps)
  have jq: "j * q = real k * q + q"
    by (simp add: j(3) algebra_simps)
  have ke: "real k * eps \<le> N * eps"
    using j eps by (intro mult_right_mono) simp_all
  have ke0: "0 \<le> real k * eps" using eps by simp
  have "\<bar>y + q\<bar> \<le> 2"
    using IH up lo jq ke ke0 m0 d small by linarith
  with err have "\<bar>rnd (y + q) - (y + q)\<bar> \<le> eps" by blast
  then have "\<bar>rnd (y + q) - (m0 + j * q)\<bar> \<le> j * eps"
    using IH jq by (simp add: j(3) algebra_simps)
  then show ?case
    unfolding y_def j_def by simp
qed

lemma drift_total:
  fixes rnd :: "real \<Rightarrow> real"
  assumes err: "\<forall>x. \<bar>x\<bar> \<le> 2 \<longrightarrow> \<bar>rnd x - x\<bar> \<le> eps"
    and eps: "0 \<le> eps" and small: "(2 * N + 1) * eps < 1 / 1000" and N: "1 \<le> N"
    and exact: "rnd N = N"
    and d: "0 \<le> d" and m0: "0 \<le> m0" "m0 + d \<le> 1"
    and k: "real k = N"
  shows "\<bar>((\<lambda>x. rnd (x + rnd (rnd d / rnd N))) ^^ k) m0 - (m0 + d)\<bar> \<le> (2 * N + 1) * eps"
proof -
  define q where "q = rnd (rnd d / rnd N)"
  have Ne: "0 \<le> N * eps" using N eps by simp
  have e1: "eps \<le> 1" using small Ne eps by (simp add: algebra_simps)
  have s3: "3 * (N * eps) \<le> 1" using small Ne eps by (simp add: algebra_simps)
  have "\<bar>d\<bar> \<le> 2" using d m0 by simp
  with err have dh: "\<bar>rnd d - d\<bar> \<le> eps" by blast
  have "\<bar>rnd d / N\<bar> = \<bar>rnd d\<bar> / N"
    using N by simp
  also have "\<dots> \<le> \<bar>rnd d\<bar> / 1"
    using N by (intro divide_left_mono) simp_all
  finally have "\<bar>rnd d / N\<bar> \<le> \<bar>rnd d\<bar>" by simp
  moreover have "\<bar>rnd d\<bar> \<le> 2" using dh d m0 e1 by linarith
  ultimately have "\<bar>rnd d / N\<bar> \<le> 2" by linarith
  with err have qh: "\<bar>q - rnd d / N\<bar> \<le> eps"
    unfolding q_def exact by blast
  have "\<bar>rnd d / N - d / N\<bar> = \<bar>rnd d - d\<bar> / N"
    using N by (simp add: diff_divide_distrib [symmetric])
  also have "\<dots> \<le> eps / N"
    using dh N by (simp add: divide_right_mono)
  finally have dq: "\<bar>rnd d / N - d / N\<bar> \<le> eps / N" .
  have qb: "\<bar>q - d / N\<bar> \<le> eps + eps / N"
    using qh dq by linarith
  have "eps / N \<le> eps / 1"
    using N eps by (intro divide_left_mono) simp_all
  with qb have q2: "\<bar>q - d / N\<bar> \<le> 2 * eps" by linarith
  have "real k \<le> N" using k by simp
  from drift_steps [OF err eps s3 N q2 d m0 this]
  have st: "\<bar>((\<lambda>x. rnd (x + q)) ^^ k) m0 - (m0 + N * q)\<bar> \<le> N * eps"
    using k by simp
  have "\<bar>N * q - d\<bar> = N * \<bar>q - d / N\<bar>"
  proof -
    have "N * q - d = N * (q - d / N)" using N by (simp add: algebra_simps)
    then show ?thesis using N by (simp add: abs_mult)
  qed
  also have "\<dots> \<le> N * (eps + eps / N)"
    using qb N by (intro mult_left_mono) simp_all
  also have "\<dots> = N * eps + eps"
    using N by (simp add: algebra_simps)
  finally have "\<bar>N * q - d\<bar> \<le> N * eps + eps" .
  moreover have "(2 * N + 1) * eps = N * eps + (N * eps + eps)"
    by (simp add: algebra_simps)
  ultimately have "\<bar>((\<lambda>x. rnd (x + q)) ^^ k) m0 - (m0 + d)\<bar> \<le> (2 * N + 1) * eps"
    using st by linarith
  then show ?thesis unfolding q_def .
qed

text \<open>
  The coarse rounding \<open>round_grid\<close> is monotone, keeps 0 and its own values, and errs by
  at most \<open>2^-21\<close>.
\<close>

lemma round_grid_mono: "mono round_grid"
  by (rule monoI) (simp add: round_grid_def divide_right_mono round_mono)

lemma round_grid_zero: "round_grid 0 = 0"
  by (simp add: round_grid_def)

lemma round_grid_idem: "round_grid (round_grid x) = round_grid x"
  by (simp add: round_grid_def)

lemma round_grid_err: "\<bar>round_grid x - x\<bar> \<le> 1 / 2 ^ 21"
proof -
  define y where "y = x * 2 ^ 20"
  have "round_grid x - x = (of_int (round y) - y) / 2 ^ 20"
    by (simp add: round_grid_def y_def diff_divide_distrib)
  then have "\<bar>round_grid x - x\<bar> = \<bar>of_int (round y) - y\<bar> / 2 ^ 20"
    by (simp only: abs_divide) simp
  also have "\<dots> \<le> (1 / 2) / 2 ^ 20"
    by (intro divide_right_mono of_int_round_abs_le) simp
  finally show ?thesis by simp
qed

text \<open>
  C2 (as amended). Take a module whose two encoders have parameters of the same shapes,
  a positive \<open>estimated_stepping_batches\<close>, \<open>m_start \<le> m_end\<close>, a rounding \<open>rnd\<close> that is
  monotone, keeps 0 and its own values (as rounding to nearest does) and keeps the
  initial \<open>m\<close>, and any schedule of hooks, cut at any point into \<open>hs1\<close> and \<open>hs2\<close>.
  The schedule runs without error. Every \<open>On_after_backward\<close> in it replaces \<open>m\<close> by
  the rounded sum of \<open>m\<close> and the rounded increment
  \<open>rnd (rnd (m_end - m_start) / rnd n)\<close>, and nothing else changes \<open>m\<close>; so \<open>m\<close> never
  decreases along the schedule. When moreover \<open>m\<close> starts at \<open>m_start\<close>,
  \<open>0 \<le> m_start\<close>, \<open>m_end \<le> 1\<close>, the schedule holds \<open>n = estimated_stepping_batches\<close> such
  hooks, \<open>n\<close> converts exactly, and the rounding errs by at most \<open>eps\<close> on \<open>[-2, 2]\<close> with
  \<open>(2 n + 1) eps < 1e-3\<close>, then \<open>m\<close> ends within \<open>(2 n + 1) eps\<close> of \<open>m_end\<close>, hence
  within \<open>1e-3\<close>. Doubles have \<open>eps = 2^-53\<close>; exact arithmetic is \<open>rnd = id\<close> with
  \<open>eps = 0\<close>, where \<open>m\<close> ends at \<open>m_end\<close> exactly.
\<close>

theorem momentum_schedule:
  fixes self :: "real ijepa" and rnd :: "real \<Rightarrow> real"
  assumes shapes: "map length (parameters (student_encoder (model self))) =
                   map length (parameters (teacher_encoder (model self)))"
    and opt: "list_all (keeps_shapes (map length (parameters (teacher_encoder (model self)))))
                (hs1 @ hs2)"
    and total: "0 < estimated_stepping_batches tr"
    and range: "fst (m_start_end self) \<le> snd (m_start_end self)"
    and mono: "mono rnd"
    and zero: "rnd 0 = 0"
    and idem: "\<forall>x. rnd (rnd x) = rnd x"
    and repr: "rnd (m self) = m self"
  shows "let q = rnd (rnd (snd (m_start_end self) - fst (m_start_end self))
                        / rnd (real_of_int (estimated_stepping_batches tr)));
             step = (\<lambda>x. rnd (x + q))
         in \<exists>s1 s2.
              run_hooks rnd tr hs1 self = Inr s1 \<and>
              run_hooks rnd tr (hs1 @ hs2) self = Inr s2 \<and>
              m s1 = (step ^^ count_list hs1 On_after_backward) (m self) \<and>
              m s2 = (step ^^ count_list hs2 On_after_backward) (m s1) \<and>
              m self \<le> m s1 \<and> m s1 \<le> m s2 \<and>
              (m self = fst (m_start_end self) \<and>
               0 \<le> fst (m_start_end self) \<and> snd (m_start_end self) \<le> 1 \<and>
               int (count_list (hs1 @ hs2) On_after_backward) = estimated_stepping_batches tr \<and>
               rnd (real_of_int (estimated_stepping_batches tr))
                 = real_of_int (estimated_stepping_batches tr) \<and>
               0 \<le> eps \<and> (\<forall>x. \<bar>x\<bar> \<le> 2 \<longrightarrow> \<bar>rnd x - x\<bar> \<le> eps) \<and>
               (2 * real_of_int (estimated_stepping_batches tr) + 1) * eps < 1 / 1000
               \<longrightarrow> \<bar>m s2 - snd (m_start_end self)\<bar>
                     \<le> (2 * real_of_int (estimated_stepping_batches tr) + 1) * eps \<and>
                   \<bar>m s2 - snd (m_start_end self)\<bar> < 1 / 1000)"
proof -
  define shp where "shp = map length (parameters (teacher_encoder (model self)))"
  define N where "N = real_of_int (estimated_stepping_batches tr)"
  define d where "d = snd (m_start_end self) - fst (m_start_end self)"
  define q where "q = rnd (rnd d / rnd N)"
  define step where "step = (\<lambda>x. rnd (x + q))"
  define c1 where "c1 = count_list hs1 On_after_backward"
  define c2 where "c2 = count_list hs2 On_after_backward"
  have nz: "estimated_stepping_batches tr \<noteq> 0" using total by simp
  have N1: "1 \<le> N" using total by (simp add: N_def)
  have d0: "0 \<le> d" using range by (simp add: d_def)
  have N0: "0 \<le> N" using N1 by simp
  have q0: "0 \<le> q"
    unfolding q_def by (rule increment_nonneg [OF mono zero d0 N0])
  have k1: "list_all (keeps_shapes shp) hs1" and k2: "list_all (keeps_shapes shp) hs2"
    using opt by (simp_all add: shp_def)
  from run_hooks_ok [OF _ _ k1 nz, of self rnd] shapes
  obtain s1 where s1: "run_hooks rnd tr hs1 self = Inr s1"
    "map length (parameters (student_encoder (model s1))) = shp"
    "map length (parameters (teacher_encoder (model s1))) = shp"
    "m_start_end s1 = m_start_end self"
    "m s1 = (step ^^ c1) (m self)"
    unfolding shp_def step_def q_def d_def N_def c1_def by auto
  from run_hooks_ok [OF s1(2,3) k2 nz, of rnd]
  obtain s2 where s2: "run_hooks rnd tr hs2 s1 = Inr s2"
    "m s2 = (step ^^ c2) (m s1)"
    unfolding step_def q_def d_def N_def c2_def s1(4) by auto
  have r2: "run_hooks rnd tr (hs1 @ hs2) self = Inr s2"
    using s1(1) s2(1) by (simp add: run_hooks_append)
  from steps_increase [OF mono idem q0 repr, of c1]
  have mono1: "m self \<le> m s1" and repr1: "rnd (m s1) = m s1"
    unfolding s1(5) step_def by simp_all
  from steps_increase [OF mono idem q0 repr1, of c2]
  have mono2: "m s1 \<le> m s2"
    unfolding s2(2) step_def by simp
  have all: "m s2 = (step ^^ (c1 + c2)) (m self)"
    unfolding s2(2) s1(5) by (simp add: funpow_add add.commute [of c1 c2])
  have final: "\<bar>m s2 - snd (m_start_end self)\<bar> \<le> (2 * N + 1) * eps \<and>
               \<bar>m s2 - snd (m_start_end self)\<bar> < 1 / 1000"
    if start: "m self = fst (m_start_end self)"
      and lo: "0 \<le> fst (m_start_end self)" and hi: "snd (m_start_end self) \<le> 1"
      and cnt: "int (count_list (hs1 @ hs2) On_after_backward) = estimated_stepping_batches tr"
      and exact: "rnd N = N"
      and eps: "0 \<le> eps" and err: "\<forall>x. \<bar>x\<bar> \<le> 2 \<longrightarrow> \<bar>rnd x - x\<bar> \<le> eps"
      and small: "(2 * N + 1) * eps < 1 / 1000"
  proof -
    have k: "real (c1 + c2) = N"
      using cnt unfolding N_def c1_def c2_def
      by (metis count_list_append of_int_of_nat_eq)
    have md: "fst (m_start_end self) + d \<le> 1"
      using hi by (simp add: d_def)
    from drift_total [OF err eps small N1 exact d0 lo md k]
    have "\<bar>m s2 - (fst (m_start_end self) + d)\<bar> \<le> (2 * N + 1) * eps"
      unfolding all start step_def q_def .
    then have "\<bar>m s2 - snd (m_start_end self)\<bar> \<le> (2 * N + 1) * eps"
      by (simp add: d_def)
    with small show ?thesis by simp
  qed
  show ?thesis
    unfolding Let_def
    using s1(1,5) s2(2) r2 mono1 mono2 final
    unfolding step_def q_def d_def N_def c1_def c2_def
    by blast
qed

theorem momentum_schedule_witness:
  "mono round_grid \<and> round_grid 0 = 0 \<and> round_grid (1 / 2) = 1 / 2 \<and> round_grid 3 = 3 \<and>
   (2 * real_of_int 3 + 1) * (1 / 2 ^ 21) < 1 / 1000 \<and>
   map_sum id m
     (run_hooks round_grid \<lparr>estimated_stepping_batches = 3\<rparr> (fit_step [[5, 6], [7]])
        (example_module\<lparr>m := 1 / 2, m_start_end := (1 / 2, 1)\<rparr>))
     = Inr (699051 / 1048576) \<and>
   map_sum id m
     (run_hooks round_grid \<lparr>estimated_stepping_batches = 3\<rparr>
        (fit_step [[5, 6], [7]] @ fit_step [[8, 9], [10]] @ fit_step [[11, 12], [13]])
        (example_module\<lparr>m := 1 / 2, m_start_end := (1 / 2, 1)\<rparr>))
     = Inr (1048577 / 1048576) \<and>
   \<bar>1048577 / 1048576 - 1\<bar> \<le> (2 * real_of_int 3 + 1) * (1 / 2 ^ 21 :: real)"
proof -
  let ?M = "example_module\<lparr>m := 1 / 2, m_start_end := (1 / 2, 1)\<rparr>"
  let ?tr = "\<lparr>estimated_stepping_batches = 3\<rparr>"
  have g1: "round_grid (1 / 2) = 1 / 2" and g3: "round_grid 3 = 3"
    by code_simp+
  have v1: "map_sum id m (run_hooks round_grid ?tr (fit_step [[5, 6], [7]]) ?M)
              = Inr (699051 / 1048576)"
    by code_simp
  have v2: "map_sum id m
     (run_hooks round_grid ?tr
        (fit_step [[5, 6], [7]] @ fit_step [[8, 9], [10]] @ fit_step [[11, 12], [13]]) ?M)
     = Inr (1048577 / 1048576)"
    by code_simp
  have h1: "map length (parameters (student_encoder (model ?M))) =
            map length (parameters (teacher_encoder (model ?M)))"
    by (simp add: example_module_def example_net_def)
  have h2: "list_all (keeps_shapes (map length (parameters (teacher_encoder (model ?M)))))
              (fit_step [[5, 6], [7]] @ fit_step [[8, 9], [10]] @ fit_step [[11, 12], [13]])"
    by (simp add: example_module_def example_net_def fit_step_def keeps_shapes_def)
  have h3: "0 < estimated_stepping_batches ?tr" by simp
  have h4: "fst (m_start_end ?M) \<le> snd (m_start_end ?M)" by simp
  have h5: "\<forall>x. round_grid (round_grid x) = round_grid x"
    by (simp add: round_grid_idem)
  have h6: "round_grid (m ?M) = m ?M" using g1 by simp
  have e: "\<forall>x. \<bar>x\<bar> \<le> 2 \<longrightarrow> \<bar>round_grid x - x\<bar> \<le> 1 / 2 ^ 21"
    using round_grid_err by blast
  from momentum_schedule [OF h1 h2 h3 h4 round_grid_mono round_grid_zero h5 h6, of "1 / 2 ^ 21"]
  have "\<bar>1048577 / 1048576 - 1\<bar> \<le> (2 * real_of_int 3 + 1) * (1 / 2 ^ 21 :: real)"
    using v2 e g3 by (auto simp: Let_def fit_step_def)
  then show ?thesis
    using v1 v2 g1 g3 round_grid_mono round_grid_zero by simp
qed

text \<open>
  Outside the unit range the tolerance fails in double arithmetic. With
  \<open>m_start_end = (0, 1e16)\<close>, \<open>m = 0\<close> and 7 planned steps, the rounded increment is
  \<open>1428571428571428.5\<close> and the seven rounded sums end at \<open>9999999999999998\<close>, which is
  2 away from \<open>m_end\<close>.
\<close>

theorem momentum_schedule_counterexample:
  "map_sum id m
     (run_hooks round_double \<lparr>estimated_stepping_batches = 7\<rparr> (replicate 7 On_after_backward)
        (example_module\<lparr>m := 0, m_start_end := (0, 10 ^ 16)\<rparr>))
     = Inr 9999999999999998 \<and>
   \<not> \<bar>9999999999999998 - 10 ^ 16\<bar> < (1 / 1000 :: real)"
  by code_simp

text \<open>
  C3 (as amended). The momentum update is what the hook \<open>on_after_backward\<close> does, so in
  a training step it comes right after backpropagation and before the optimizer step
  and the scheduler step: the teacher becomes the moving average of the old teacher and
  the student as it is before the optimizer step, with the coefficient \<open>m\<close> of before the
  hook, \<open>m\<close> is then incremented, and the optimizer step that follows changes the
  student only.
\<close>

theorem fit_step_momentum_before_optimizer:
  fixes self :: "real ijepa"
  assumes "list_all (\<lambda>(s, t). length s = length t)
             (zip (parameters (student_encoder (model self)))
                  (parameters (teacher_encoder (model self))))"
    and "estimated_stepping_batches tr \<noteq> 0"
  shows "\<exists>s1 s2.
           on_after_backward rnd tr self = Inr s1 \<and>
           run_hooks rnd tr [Backward, On_after_backward] self = Inr s1 \<and>
           run_hooks rnd tr (fit_step new) self = Inr s2 \<and>
           parameters (teacher_encoder (model s1)) =
             map2 (map2 (\<lambda>x y. m self * y + (1 - m self) * x))
               (parameters (student_encoder (model self)))
               (parameters (teacher_encoder (model self)))
             @ drop (length (parameters (student_encoder (model self))))
                 (parameters (teacher_encoder (model self))) \<and>
           parameters (teacher_encoder (model s2)) = parameters (teacher_encoder (model s1)) \<and>
           parameters (student_encoder (model s2)) = new \<and>
           m s2 = m s1 \<and>
           m s1 = rnd (m self + rnd (rnd (snd (m_start_end self) - fst (m_start_end self))
                             / rnd (real_of_int (estimated_stepping_batches tr))))"
  using on_after_backward_ok [OF assms] by (simp add: fit_step_def)

theorem fit_step_momentum_before_optimizer_witness:
  "estimated_stepping_batches \<lparr>estimated_stepping_batches = 4\<rparr> \<noteq> 0 \<and>
   map_sum id (\<lambda>s. (parameters (student_encoder (model s)), parameters (teacher_encoder (model s)), m s))
     (run_hooks (\<lambda>x. x) \<lparr>estimated_stepping_batches = 4\<rparr> (fit_step [[5, 6], [7]])
        (example_module\<lparr>m := 1 / 2\<rparr>))
     = Inr ([[5, 6], [7]], [[1 / 2, 3], [2]], 501 / 1000)"
  using fit_step_momentum_before_optimizer
    [of "example_module\<lparr>m := 1 / 2\<rparr>" "\<lparr>estimated_stepping_batches = 4\<rparr>" "\<lambda>x. x" "[[5, 6], [7]]"]
  by (auto simp: example_module_def example_net_def)

text \<open>
  With \<open>m = 1/2\<close>, student \<open>[[1, 2], [3]]\<close>, teacher \<open>[[0, 4], [1]]\<close> and an optimizer
  step that leaves the student at \<open>[[5, 6], [7]]\<close>, the training step ends with the
  teacher at \<open>[[1/2, 3], [2]]\<close>, the average with the student of before the optimizer step.
  In the order the specification gives (momentum update last) the teacher would end at
  \<open>[[5/2, 5], [4]]\<close>.
\<close>

theorem fit_step_order_counterexample:
  "map_sum id (\<lambda>s. parameters (teacher_encoder (model s)))
     (run_hooks (\<lambda>x. x) \<lparr>estimated_stepping_batches = 4\<rparr> (fit_step [[5, 6], [7]])
        (example_module\<lparr>m := 1 / 2\<rparr>))
     = Inr [[1 / 2, 3], [2]] \<and>
   map_sum id (\<lambda>s. parameters (teacher_encoder (model s)))
     (run_hooks (\<lambda>x. x) \<lparr>estimated_stepping_batches = 4\<rparr> (spec_fit_step [[5, 6], [7]])
        (example_module\<lparr>m := 1 / 2\<rparr>))
     = Inr [[5 / 2, 5], [4]] \<and>
   fit_step [[5, 6], [7]] \<noteq> spec_fit_step [[5, 6], [7]]"
  by (simp add: fit_step_def spec_fit_step_def on_after_backward_def update_momentum_def
      add_inplace_def mul_inplace_def example_module_def example_net_def)

section \<open>The corpus loader\<close>

lemma scan_files_eq:
  "scan_files r fs acc = acc @ map (path_join r) (filter (\<lambda>f. endswith (lower f) ''.jpeg'') fs)"
  by (induction fs arbitrary: acc) simp_all

lemma scan_walk_eq:
  "scan_walk ws acc =
     acc @ concat (map (\<lambda>(r, ds, fs). map (path_join r) (filter (\<lambda>f. endswith (lower f) ''.jpeg'') fs)) ws)"
  by (induction ws acc rule: scan_walk.induct) (simp_all add: scan_files_eq)

lemma scan_walk_append:
  "scan_walk (ws1 @ ws2) [] = scan_walk ws1 [] @ scan_walk ws2 []"
  by (simp add: scan_walk_eq)

lemma scan_walk_concat:
  "scan_walk (concat wss) [] = concat (map (\<lambda>ws. scan_walk ws []) wss)"
  by (induction wss) (simp_all add: scan_walk_append)

lemma scan_walk_Dir:
  "scan_walk (walk t (Dir fs subs)) [] =
     map (path_join t) (filter (\<lambda>f. endswith (lower f) ''.jpeg'') fs)
     @ concat (map (\<lambda>(name, d). scan_walk (walk (path_join t name) d) []) subs)"
proof -
  have "scan_walk (walk t (Dir fs subs)) [] =
          scan_walk ([(t, map fst subs, fs)] @ concat (map (\<lambda>(name, d). walk (path_join t name) d) subs)) []"
    by simp
  also have "\<dots> = scan_walk [(t, map fst subs, fs)] []
                 @ scan_walk (concat (map (\<lambda>(name, d). walk (path_join t name) d) subs)) []"
    by (rule scan_walk_append)
  finally show ?thesis
    by (simp add: scan_walk_concat scan_files_eq comp_def case_prod_unfold)
qed

lemma file_in_Dir:
  "file_in (Dir fs subs) comps name \<longleftrightarrow>
     (comps = [] \<and> name \<in> set fs) \<or>
     (\<exists>sub d' cs. comps = sub # cs \<and> (sub, d') \<in> set subs \<and> file_in d' cs name)"
proof
  assume "file_in (Dir fs subs) comps name"
  then show "(comps = [] \<and> name \<in> set fs) \<or>
     (\<exists>sub d' cs. comps = sub # cs \<and> (sub, d') \<in> set subs \<and> file_in d' cs name)"
    by (cases rule: file_in.cases) auto
next
  assume "(comps = [] \<and> name \<in> set fs) \<or>
     (\<exists>sub d' cs. comps = sub # cs \<and> (sub, d') \<in> set subs \<and> file_in d' cs name)"
  then show "file_in (Dir fs subs) comps name"
    by (auto intro: file_in.intros)
qed

lemma walk_finds:
  "set (scan_walk (walk t d) []) =
     {path_join (foldl path_join t comps) name | comps name.
        file_in d comps name \<and> endswith (lower name) ''.jpeg''}"
proof (induction d arbitrary: t)
  case (Dir fs subs)
  have IH: "set (scan_walk (walk t' d') []) =
     {path_join (foldl path_join t' comps) name | comps name.
        file_in d' comps name \<and> endswith (lower name) ''.jpeg''}"
    if "(n, d') \<in> set subs" for n d' t'
    using Dir.IH [of "(n, d')" d' t'] that by simp
  show ?case
  proof (intro set_eqI iffI)
    fix p
    assume "p \<in> set (scan_walk (walk t (Dir fs subs)) [])"
    then consider
      (top) f where "f \<in> set fs" "endswith (lower f) ''.jpeg''" "p = path_join t f"
      | (sub) n d' where "(n, d') \<in> set subs" "p \<in> set (scan_walk (walk (path_join t n) d') [])"
      unfolding scan_walk_Dir by auto
    then show "p \<in> {path_join (foldl path_join t comps) name | comps name.
        file_in (Dir fs subs) comps name \<and> endswith (lower name) ''.jpeg''}"
    proof cases
      case top
      then have "file_in (Dir fs subs) [] f" by (simp add: file_in_Dir)
      with top show ?thesis by force
    next
      case sub
      with IH [OF sub(1)] obtain cs name where
        "p = path_join (foldl path_join (path_join t n) cs) name"
        "file_in d' cs name" "endswith (lower name) ''.jpeg''"
        by auto
      moreover from this sub(1) have "file_in (Dir fs subs) (n # cs) name"
        by (auto simp: file_in_Dir)
      ultimately show ?thesis
        by (intro CollectI exI [of _ "n # cs"] exI [of _ name]) simp
    qed
  next
    fix p
    assume "p \<in> {path_join (foldl path_join t comps) name | comps name.
        file_in (Dir fs subs) comps name \<and> endswith (lower name) ''.jpeg''}"
    then obtain comps name where p: "p = path_join (foldl path_join t comps) name"
      "file_in (Dir fs subs) comps name" "endswith (lower name) ''.jpeg''"
      by auto
    from p(2) consider
      (top) "comps = []" "name \<in> set fs"
      | (sub) n d' cs where "comps = n # cs" "(n, d') \<in> set subs" "file_in d' cs name"
      by (auto simp: file_in_Dir)
    then show "p \<in> set (scan_walk (walk t (Dir fs subs)) [])"
    proof cases
      case top
      with p show ?thesis unfolding scan_walk_Dir by simp
    next
      case sub
      with p have "p \<in> set (scan_walk (walk (path_join t n) d') [])"
        unfolding IH [OF sub(2)] by auto
      with sub(2) show ?thesis unfolding scan_walk_Dir by auto
    qed
  qed
qed

lemma endswith_lower:
  "endswith (lower s) suf \<longleftrightarrow> (\<exists>stem ext. s = stem @ ext \<and> lower ext = suf)"
proof
  assume e: "endswith (lower s) suf"
  then have "s = take (length s - length suf) s @ drop (length s - length suf) s"
    and "lower (drop (length s - length suf) s) = suf"
    by (simp_all add: endswith_def lower_def drop_map)
  then show "\<exists>stem ext. s = stem @ ext \<and> lower ext = suf" by blast
next
  assume "\<exists>stem ext. s = stem @ ext \<and> lower ext = suf"
  then obtain stem ext where "s = stem @ ext" "lower ext = suf" by blast
  then show "endswith (lower s) suf"
    by (auto simp: endswith_def lower_def)
qed

text \<open>
  C6. Under a root that can be listed, the paths collected by the first loop of
  \<open>load_images\<close> are exactly the joined paths of the files, at any depth, whose
  lower-cased name ends with \<open>.jpeg\<close>, the one extension the loader supports; by
  \<open>endswith_lower\<close> that is a name ending in any mix of cases of it. A root that cannot
  be listed yields no path.
\<close>

theorem find_image_files_exact:
  "case fsys path of
     None \<Rightarrow> find_image_files fsys path = []
   | Some d \<Rightarrow>
       set (find_image_files fsys path) =
         {path_join (foldl path_join path comps) name | comps name.
            file_in d comps name \<and> endswith (lower name) ''.jpeg''}"
  by (simp add: find_image_files_def os_walk_def walk_finds split: option.splits)

lemma jpeg_names:
  "endswith (lower ''a.JPEG'') ''.jpeg''" "\<not> endswith (lower ''notes.txt'') ''.jpeg''"
  "endswith (lower ''b.jpeg'') ''.jpeg''" "\<not> endswith (lower ''c.jpg'') ''.jpeg''"
  "endswith (lower ''d.Jpeg'') ''.jpeg''"
  by code_simp+

theorem find_image_files_exact_witness:
  "find_image_files example_fs ''/data'' = [''/data/a.JPEG'', ''/data/n01/b.jpeg'', ''/data/n02/deep/d.Jpeg''] \<and>
   file_in example_tree [''n02'', ''deep''] ''d.Jpeg'' \<and>
   ''/data/n02/deep/d.Jpeg'' \<in>
     {path_join (foldl path_join ''/data'' comps) name | comps name.
            file_in example_tree comps name \<and> endswith (lower name) ''.jpeg''}"
proof -
  have d: "find_image_files example_fs ''/data'' = [''/data/a.JPEG'', ''/data/n01/b.jpeg'', ''/data/n02/deep/d.Jpeg'']"
    by (simp add: find_image_files_def os_walk_def example_fs_def example_tree_def jpeg_names path_join_def)
  have f: "file_in example_tree [''n02'', ''deep''] ''d.Jpeg''"
    by (simp add: example_tree_def file_in_Dir)
  have "example_fs ''/data'' = Some example_tree"
    by (simp add: example_fs_def)
  with find_image_files_exact [of example_fs "''/data''"]
  have e: "set (find_image_files example_fs ''/data'') =
     {path_join (foldl path_join ''/data'' comps) name | comps name.
            file_in example_tree comps name \<and> endswith (lower name) ''.jpeg''}"
    by simp
  have "''/data/n02/deep/d.Jpeg'' \<in> set (find_image_files example_fs ''/data'')"
    unfolding d by simp
  then have "''/data/n02/deep/d.Jpeg'' \<in>
     {path_join (foldl path_join ''/data'' comps) name | comps name.
            file_in example_tree comps name \<and> endswith (lower name) ''.jpeg''}"
    unfolding e .
  with d f show ?thesis
    by (intro conjI)
qed

text \<open>
  C5 (as amended). For a root directory with no file, at any depth, whose name matches
  the extension, constructing the dataset raises nothing: the result is a dataset with
  no image, of length 0.
\<close>

theorem empty_corpus_is_empty_dataset:
  assumes "fsys path = Some d"
    and "\<forall>comps name. file_in d comps name \<longrightarrow> \<not> endswith (lower name) ''.jpeg''"
  shows "IJEPADataset fsys open_image path isz
           = Inr \<lparr>dataset_path = path, img_size = isz, data = []\<rparr> \<and>
         map_sum id len (IJEPADataset fsys open_image path isz) = Inr 0"
proof -
  have "set (find_image_files fsys path) = {}"
    using assms by (simp add: find_image_files_def os_walk_def walk_finds)
  then show ?thesis
    by (simp add: IJEPADataset_def load_images_def len_def)
qed

theorem empty_corpus_is_empty_dataset_witness:
  "example_fs ''/empty'' = Some (Dir [''notes.txt''] [(''sub'', Dir [''c.jpg''] [])]) \<and>
   IJEPADataset example_fs (\<lambda>isz img_file. Inr [0::real]) ''/empty'' (224, 224)
     = Inr \<lparr>dataset_path = ''/empty'', img_size = (224, 224), data = []\<rparr>"
proof -
  have h1: "example_fs ''/empty'' = Some (Dir [''notes.txt''] [(''sub'', Dir [''c.jpg''] [])])"
    by (simp add: example_fs_def)
  have h2: "\<forall>comps name. file_in (Dir [''notes.txt''] [(''sub'', Dir [''c.jpg''] [])]) comps name
              \<longrightarrow> \<not> endswith (lower name) ''.jpeg''"
    by (auto simp: file_in_Dir jpeg_names)
  from empty_corpus_is_empty_dataset
    [of example_fs "''/empty''" "Dir [''notes.txt''] [(''sub'', Dir [''c.jpg''] [])]"
      "\<lambda>isz img_file. Inr [0::real]" "(224, 224)", OF h1 h2] h1
  show ?thesis
    by simp
qed

text \<open>
  The tree under \<open>/empty\<close> holds \<open>notes.txt\<close> and \<open>sub/c.jpg\<close>, no \<open>.jpeg\<close> file. The
  constructor returns a dataset of length 0, and so does the data module's setup for
  both of its datasets; no error is raised, even with an image opener that always fails.
\<close>

theorem empty_corpus_counterexample:
  "(IJEPADataset example_fs (\<lambda>isz img_file. Inl OSError) ''/empty'' (224, 224) :: error + real tensor dataset)
     = Inr \<lparr>dataset_path = ''/empty'', img_size = (224, 224), data = []\<rparr> \<and>
   map_sum id len
     (IJEPADataset example_fs (\<lambda>isz img_file. Inl OSError) ''/empty'' (224, 224) :: error + real tensor dataset)
     = Inr 0 \<and>
   map_sum id (\<lambda>(train_dataset, val_dataset). (len train_dataset, len val_dataset))
     (D2VDataModule_setup example_fs (\<lambda>isz img_file. Inl OSError)
        \<lparr>train_dataset_path = ''/empty'', val_dataset_path = ''/empty'', batch_size = 16,
         num_workers = 4, shuffle = True\<rparr> :: error + real tensor dataset \<times> real tensor dataset)
     = Inr (0, 0)"
  by (simp add: D2VDataModule_setup_def IJEPADataset_def load_images_def find_image_files_def os_walk_def
      example_fs_def jpeg_names len_def)

end
